theory Spec2Isabelle
  imports Complex_Main
begin

section \<open>The drag controller of coral-spectrum (DragAction)\<close>

text \<open>
  A shallow embedding of \<^verbatim>\<open>DragAction\<close> and of the helper functions beside it
  (\<^verbatim>\<open>within\<close>, \<^verbatim>\<open>isOverDropZone\<close>, \<^verbatim>\<open>getPagePosition\<close>,
  \<^verbatim>\<open>transformToArray\<close>, \<^verbatim>\<open>getViewContainer\<close>).

  Conventions of the embedding.
  \<^item> A DOM element is a number (its identity).
  \<^item> A JavaScript number that is always finite in the source (a bounding box, a scroll
    offset) is a \<open>real\<close>; a number that may be \<^verbatim>\<open>undefined\<close> or \<^verbatim>\<open>NaN\<close>
    is a \<open>real option\<close>, \<open>None\<close> standing for both: arithmetic with it gives
    \<open>None\<close> and every comparison with it is false, as in JavaScript.
  \<^item> What the host answers when the code queries it (bounding boxes, scroll offsets,
    computed styles) is a \<open>layout\<close> value handed to each handler; the handlers are
    correct for every layout, so no layout engine is modelled.
  \<^item> What the code writes and reads back (class lists, inline styles, the
    \<^verbatim>\<open>_overflow\<close> and \<^verbatim>\<open>dragAction\<close> expando properties, listeners) is
    the \<open>dom\<close> state, passed through every operation.
\<close>

subsection \<open>Geometry answered by the host\<close>

type_synonym elem = nat

type_synonym num = "real option"

record rect =
  r_left :: real
  r_top :: real
  r_width :: real
  r_height :: real

text \<open>
  A CSS value of \<^verbatim>\<open>top\<close> or \<^verbatim>\<open>left\<close>: a length in pixels, or a
  keyword such as \<^verbatim>\<open>auto\<close>.
\<close>

datatype cssval = Px real | Keyword string

record layout =
  boundingClientRect :: "elem \<Rightarrow> rect"
  scrollTop :: "elem \<Rightarrow> real"
  scrollLeft :: "elem \<Rightarrow> real"
  scrollHeight :: "elem \<Rightarrow> real"
  scrollWidth :: "elem \<Rightarrow> real"
  scrollTopMax :: "elem \<Rightarrow> real"
  scrollLeftMax :: "elem \<Rightarrow> real"
  innerHeight :: real
  innerWidth :: real
  computedTop :: "elem \<Rightarrow> cssval"
  computedLeft :: "elem \<Rightarrow> cssval"
  computedPosition :: "elem \<Rightarrow> string"
  scrollingElement :: elem

subsection \<open>within and isOverDropZone\<close>

text \<open>
  \<^verbatim>\<open>within(scrollingElement, a, b)\<close>: both boxes are moved to document
  coordinates and the four separating conditions are tested. (The function is named
  \<open>within_fn\<close> here: \<open>within\<close> is a reserved word of the logic's syntax.)
\<close>

definition within_fn :: "layout \<Rightarrow> elem \<Rightarrow> elem \<Rightarrow> elem \<Rightarrow> bool" where
  "within_fn L se a b =
     (let aBoundingClientRect = boundingClientRect L a;
          bBoundingClientRect = boundingClientRect L b;
          documentScrollTop = scrollTop L se;
          documentScrollLeft = scrollLeft L se;
          a_l = r_left aBoundingClientRect + documentScrollLeft;
          a_r = a_l + r_width aBoundingClientRect;
          b_l = r_left bBoundingClientRect + documentScrollLeft;
          b_r = b_l + r_width bBoundingClientRect;
          a_t = r_top aBoundingClientRect + documentScrollTop;
          a_b = a_t + r_height aBoundingClientRect;
          b_t = r_top bBoundingClientRect + documentScrollTop;
          b_b = b_t + r_height bBoundingClientRect
      in \<not> (b_l > a_r \<or> b_r < a_l \<or> (b_t > a_b \<or> b_b < a_t)))"

text \<open>
  The callback loop of \<^verbatim>\<open>_dropZones.some(...)\<close>: it stops at the first zone
  the callback accepts, and \<^verbatim>\<open>el\<close> is that zone.
\<close>

fun some_within :: "layout \<Rightarrow> elem \<Rightarrow> elem list \<Rightarrow> elem option" where
  "some_within L a [] = None"
| "some_within L a (dropZone # rest) =
     (if within_fn L (scrollingElement L) a dropZone then Some dropZone
      else some_within L a rest)"

text \<open>
  \<^verbatim>\<open>isOverDropZone(dragAction)\<close> reads only the controller's drag element and
  its drop-zone list; they are its two last arguments here.
\<close>

definition isOverDropZone :: "layout \<Rightarrow> elem \<Rightarrow> elem list \<Rightarrow> elem option" where
  "isOverDropZone L dragEl zones =
     (if zones \<noteq> [] then some_within L dragEl zones else None)"




subsection \<open>JavaScript values, pointer events and getPagePosition\<close>

text \<open>
  The values the constructor and the setters are handed. \<open>Element\<close> is an
  \<^verbatim>\<open>HTMLElement\<close>; \<open>Object\<close> is any other object.
\<close>

datatype jsval =
    Undefined | Null | Boolean bool | Number real | NaN | Str string
  | Element elem | NodeList "elem list" | Object

fun truthy :: "jsval \<Rightarrow> bool" where
  "truthy Undefined = False"
| "truthy Null = False"
| "truthy (Boolean b) = b"
| "truthy (Number r) = (r \<noteq> 0)"
| "truthy NaN = False"
| "truthy (Str s) = (s \<noteq> [])"
| "truthy (Element e) = True"
| "truthy (NodeList es) = True"
| "truthy Object = True"

record touch =
  t_pageX :: real
  t_pageY :: real

text \<open>
  A mouse or touch event. A list that the event does not carry is \<open>None\<close>; a touch
  event has no \<^verbatim>\<open>pageX\<close> of its own, so \<open>e_pageX\<close> is \<open>None\<close> there.
\<close>

record event =
  changedTouches :: "touch list option"
  touches :: "touch list option"
  e_pageX :: num
  e_pageY :: num
  targetTagName :: string

record position =
  p_x :: num
  p_y :: num

text \<open>\<^verbatim>\<open>a || b\<close> on numbers: \<open>a\<close> unless it is undefined, NaN or zero.\<close>

definition or_num :: "num \<Rightarrow> num \<Rightarrow> num" where
  "or_num a b = (case a of None \<Rightarrow> b | Some v \<Rightarrow> if v \<noteq> 0 then Some v else b)"

definition getPagePosition :: "event \<Rightarrow> position" where
  "getPagePosition ev =
     (let touch =
            (case changedTouches ev of
               Some (t # ts) \<Rightarrow> Some t
             | _ \<Rightarrow> (case touches ev of Some (t # ts) \<Rightarrow> Some t | _ \<Rightarrow> None))
      in \<lparr> p_x = or_num (map_option t_pageX touch) (e_pageX ev),
           p_y = or_num (map_option t_pageY touch) (e_pageY ev) \<rparr>)"

text \<open>Arithmetic and comparison where one side may be undefined or NaN.\<close>

definition num_sub :: "num \<Rightarrow> num \<Rightarrow> num" where
  "num_sub a b = (case (a, b) of (Some x, Some y) \<Rightarrow> Some (x - y) | _ \<Rightarrow> None)"

definition num_minus :: "num \<Rightarrow> real \<Rightarrow> num" where
  "num_minus a r = map_option (\<lambda>x. x - r) a"

definition num_plus :: "num \<Rightarrow> real \<Rightarrow> num" where
  "num_plus a r = map_option (\<lambda>x. x + r) a"

definition num_ge :: "num \<Rightarrow> real \<Rightarrow> bool" where
  "num_ge a r = (case a of None \<Rightarrow> False | Some x \<Rightarrow> x \<ge> r)"

definition num_le :: "num \<Rightarrow> real \<Rightarrow> bool" where
  "num_le a r = (case a of None \<Rightarrow> False | Some x \<Rightarrow> x \<le> r)"

subsection \<open>The state the controller writes and reads back\<close>

text \<open>
  Listeners. A listener is registered under an event type and a namespace
  (\<^verbatim>\<open>'mousedown.DragAction'\<close>, \<^verbatim>\<open>'mousemove.DragAction' + id\<close>) and
  \<^verbatim>\<open>off('.' + namespace)\<close> removes every listener of that namespace.
\<close>

datatype namespace = NsDragAction | NsDragActionId nat

datatype handler = HDragStart nat | HDrag nat | HDragEnd nat | HPreventDefault

record listener =
  l_type :: string
  l_ns :: namespace
  l_handler :: handler

definition off :: "namespace \<Rightarrow> listener list \<Rightarrow> listener list" where
  "off ns ls = filter (\<lambda>l. l_ns l \<noteq> ns) ls"

definition on :: "string \<Rightarrow> namespace \<Rightarrow> handler \<Rightarrow> listener list \<Rightarrow> listener list" where
  "on ty ns h ls = ls @ [\<lparr> l_type = ty, l_ns = ns, l_handler = h \<rparr>]"

text \<open>
  The computed \<^verbatim>\<open>overflow\<close>, \<^verbatim>\<open>overflowX\<close> and \<^verbatim>\<open>overflowY\<close> of an
  element.
\<close>

record overflow3 =
  ov :: string
  ovX :: string
  ovY :: string

text \<open>
  The DOM state. \<open>ancestors d e\<close> is the chain of \<^verbatim>\<open>parentNode\<close>s of \<open>e\<close>,
  nearest first (finite, as a DOM tree is). \<open>styleOverflow\<close>, \<open>stylePosition\<close>,
  \<open>styleTop\<close> and \<open>styleLeft\<close> are inline styles (\<open>[]\<close> when not set);
  \<open>sheetOverflow\<close> is what the style sheets give when there is no inline
  \<^verbatim>\<open>overflow\<close>. \<open>overflowSaved\<close> is the \<^verbatim>\<open>_overflow\<close> property the controller
  puts on elements, \<open>elemVent\<close> the listeners of the \<^verbatim>\<open>_dragEvents\<close> property it
  puts on handles, \<open>globalEvents\<close> the listeners of the \<^verbatim>\<open>events\<close> object and
  \<open>dragActionRef\<close> the \<^verbatim>\<open>dragAction\<close> property of an element (the identity of
  the controller it refers to). Selector strings are taken to be well formed:
  \<open>querySelectorAll\<close> answers every string with the elements it matches, in document
  order.
\<close>

record dom =
  body :: elem
  ancestors :: "elem \<Rightarrow> elem list"
  attributes :: "elem \<Rightarrow> string \<Rightarrow> string option"
  querySelectorAll :: "string \<Rightarrow> elem list"
  classList :: "elem \<Rightarrow> string set"
  styleOverflow :: "elem \<Rightarrow> string"
  sheetOverflow :: "elem \<Rightarrow> overflow3"
  overflowSaved :: "elem \<Rightarrow> string option"
  stylePosition :: "elem \<Rightarrow> string"
  styleTop :: "elem \<Rightarrow> cssval"
  styleLeft :: "elem \<Rightarrow> cssval"
  elemVent :: "elem \<Rightarrow> listener list"
  globalEvents :: "listener list"
  dragActionRef :: "elem \<Rightarrow> nat option"

definition querySelector :: "dom \<Rightarrow> string \<Rightarrow> elem option" where
  "querySelector d s = (case querySelectorAll d s of [] \<Rightarrow> None | e # es \<Rightarrow> Some e)"

text \<open>
  \<^verbatim>\<open>window.getComputedStyle(e).overflow\<close> and its two longhands: an inline
  \<^verbatim>\<open>overflow\<close> wins over the style sheets.
\<close>

definition computedOverflow :: "dom \<Rightarrow> elem \<Rightarrow> overflow3" where
  "computedOverflow d e =
     (if styleOverflow d e = [] then sheetOverflow d e
      else \<lparr> ov = styleOverflow d e, ovX = styleOverflow d e, ovY = styleOverflow d e \<rparr>)"

definition classAdd :: "elem \<Rightarrow> string \<Rightarrow> dom \<Rightarrow> dom" where
  "classAdd e c d = d\<lparr> classList := (classList d)(e := insert c (classList d e)) \<rparr>"

definition classRemove :: "elem \<Rightarrow> string \<Rightarrow> dom \<Rightarrow> dom" where
  "classRemove e c d = d\<lparr> classList := (classList d)(e := classList d e - {c}) \<rparr>"

definition classContains :: "dom \<Rightarrow> elem \<Rightarrow> string \<Rightarrow> bool" where
  "classContains d e c = (c \<in> classList d e)"

text \<open>
  Writing \<^verbatim>\<open>`${n}px`\<close> to \<^verbatim>\<open>style.top\<close> or \<^verbatim>\<open>style.left\<close>: when
  \<open>n\<close> is NaN the text is \<^verbatim>\<open>NaNpx\<close>, which is no CSS length, and the host leaves
  the declaration as it was.
\<close>

definition assignPx :: "cssval \<Rightarrow> num \<Rightarrow> cssval" where
  "assignPx old n = (case n of None \<Rightarrow> old | Some r \<Rightarrow> Px r)"

fun parseFloat :: "cssval \<Rightarrow> num" where
  "parseFloat (Px r) = Some r"
| "parseFloat (Keyword k) = None"

text \<open>\<^verbatim>\<open>parseFloat(v) || 0\<close>.\<close>

definition parseFloatOr0 :: "cssval \<Rightarrow> real" where
  "parseFloatOr0 v = (case or_num (parseFloat v) (Some 0) of Some r \<Rightarrow> r | None \<Rightarrow> 0)"

text \<open>
  Writing a scroll offset: the host keeps it between zero and the largest offset the
  content allows.
\<close>

definition clampScroll :: "real \<Rightarrow> real \<Rightarrow> real" where
  "clampScroll mx v = max 0 (min v mx)"

definition setScrollTop :: "elem \<Rightarrow> real \<Rightarrow> layout \<Rightarrow> layout" where
  "setScrollTop e v L = L\<lparr> scrollTop := (scrollTop L)(e := clampScroll (scrollTopMax L e) v) \<rparr>"

definition setScrollLeft :: "elem \<Rightarrow> real \<Rightarrow> layout \<Rightarrow> layout" where
  "setScrollLeft e v L = L\<lparr> scrollLeft := (scrollLeft L)(e := clampScroll (scrollLeftMax L e) v) \<rparr>"

subsection \<open>The controller\<close>

abbreviation DROP_ZONE_ATTRIBUTE :: string where "DROP_ZONE_ATTRIBUTE \<equiv> ''coral-dragaction-dropzone''"
abbreviation HANDLE_ATTRIBUTE :: string where "HANDLE_ATTRIBUTE \<equiv> ''coral-dragaction-handle''"
abbreviation AXIS_ATTRIBUTE :: string where "AXIS_ATTRIBUTE \<equiv> ''coral-dragaction-axis''"
abbreviation SCROLL_ATTRIBUTE :: string where "SCROLL_ATTRIBUTE \<equiv> ''coral-dragaction-scroll''"
abbreviation CONTAINMENT_ATTRIBUTE :: string where "CONTAINMENT_ATTRIBUTE \<equiv> ''coral-dragaction-containment''"

abbreviation OPEN_HAND_CLASS :: string where "OPEN_HAND_CLASS \<equiv> ''u-coral-openHand''"
abbreviation CLOSE_HAND_CLASS :: string where "CLOSE_HAND_CLASS \<equiv> ''u-coral-closedHand''"
abbreviation IS_DRAGGING_CLASS :: string where "IS_DRAGGING_CLASS \<equiv> ''is-dragging''"

abbreviation (input) DEFAULT_SCROLL_OFFSET :: real where "DEFAULT_SCROLL_OFFSET \<equiv> 20"
abbreviation (input) DEFAULT_SCROLL_BY :: real where "DEFAULT_SCROLL_BY \<equiv> 10"

abbreviation FREE :: string where "FREE \<equiv> ''free''"
abbreviation VERTICAL :: string where "VERTICAL \<equiv> ''vertical''"
abbreviation HORIZONTAL :: string where "HORIZONTAL \<equiv> ''horizontal''"

text \<open>The enumeration object \<^verbatim>\<open>axis\<close>, as the list of its values.\<close>

definition axisEnum :: "string list" where
  "axisEnum = [FREE, VERTICAL, HORIZONTAL]"

record initialPos =
  ip_position :: string
  ip_left :: cssval
  ip_top :: cssval

text \<open>
  The fields of a \<^verbatim>\<open>DragAction\<close>. A field that is \<^verbatim>\<open>undefined\<close> until it
  is first written is an option (\<open>container\<close>, \<open>dragPosition\<close>, \<open>dropElement\<close>) or
  the empty list (\<open>handles\<close>, \<open>dropZones\<close>: the source tests them only with
  \<^verbatim>\<open>x && x.length\<close>). \<open>ctrlVent\<close> holds the listeners of the controller's own
  \<^verbatim>\<open>_dragEvents\<close>.
\<close>

record DragAction =
  uid :: nat
  dragElementValue :: jsval
  dragElement :: elem
  initialPosition :: initialPos
  ctrlVent :: "listener list"
  handle :: jsval
  handles :: "elem list"
  dropZone :: jsval
  dropZones :: "elem list"
  dropZoneEntered :: bool
  dropElement :: "elem option"
  axis :: string
  scroll :: bool
  containment :: bool
  container :: "elem option"
  dragPosition :: "position option"

datatype error = Error string | TypeError

text \<open>The notifications a controller dispatches, and what they carry.\<close>

datatype kind = Dragstart | Drag | Dragenter | Dragover | Dragleave | Drop | Dragend

fun event_name :: "kind \<Rightarrow> string" where
  "event_name Dragstart = ''coral-dragaction:dragstart''"
| "event_name Drag = ''coral-dragaction:drag''"
| "event_name Dragenter = ''coral-dragaction:dragenter''"
| "event_name Dragover = ''coral-dragaction:dragover''"
| "event_name Dragleave = ''coral-dragaction:dragleave''"
| "event_name Drop = ''coral-dragaction:drop''"
| "event_name Dragend = ''coral-dragaction:dragend''"

record notification =
  n_kind :: kind
  n_dragElement :: elem
  n_pageX :: num
  n_pageY :: num
  n_dropElement :: "elem option"

definition notify :: "kind \<Rightarrow> elem \<Rightarrow> position \<Rightarrow> elem option \<Rightarrow> notification" where
  "notify k e p z =
     \<lparr> n_kind = k, n_dragElement = e, n_pageX = p_x p, n_pageY = p_y p, n_dropElement = z \<rparr>"

subsubsection \<open>getViewContainer and transformToArray\<close>

text \<open>
  The loop of \<^verbatim>\<open>getViewContainer\<close> over the parents of the element: the result
  is \<open>None\<close> (\<^verbatim>\<open>null\<close>) when the chain ends before a parent is accepted.
\<close>

fun viewContainerLoop :: "dom \<Rightarrow> elem list \<Rightarrow> elem option" where
  "viewContainerLoop d [] = None"
| "viewContainerLoop d (p # ps) =
     (if p = body d then Some p
      else (let computedStyle = computedOverflow d p;
                overflow = ov computedStyle;
                overflowX = ovX computedStyle;
                overflowY = ovY computedStyle
            in if (overflow = ''hidden'' \<or> overflow = ''auto'' \<or> overflow = ''scroll'')
                  \<and> overflow = overflowX \<and> overflow = overflowY
               then Some p
               else viewContainerLoop d ps))"

definition getViewContainer :: "dom \<Rightarrow> elem \<Rightarrow> elem option" where
  "getViewContainer d element = viewContainerLoop d (ancestors d element)"

text \<open>
  \<^verbatim>\<open>transformToArray\<close>; \<open>None\<close> is the \<^verbatim>\<open>undefined\<close> it returns when
  no branch applies.
\<close>

fun transformToArray :: "dom \<Rightarrow> jsval \<Rightarrow> elem list option" where
  "transformToArray d (Str s) = Some (querySelectorAll d s)"
| "transformToArray d (Element e) = Some [e]"
| "transformToArray d (NodeList es) = Some es"
| "transformToArray d v = None"

text \<open>
  The test \<^verbatim>\<open>typeof value === 'string' || value instanceof HTMLElement ||
  Object.prototype.toString.call(value) === '[object NodeList]'\<close> of the two setters.
\<close>

fun isStringElementOrNodeList :: "jsval \<Rightarrow> bool" where
  "isStringElementOrNodeList (Str s) = True"
| "isStringElementOrNodeList (Element e) = True"
| "isStringElementOrNodeList (NodeList es) = True"
| "isStringElementOrNodeList v = False"

subsubsection \<open>Helpers of coral-utils\<close>

text \<open>
  Modelled from the spec: \<^verbatim>\<open>transform.string\<close>, \<^verbatim>\<open>transform.boolean\<close>,
  \<^verbatim>\<open>validate.enumeration\<close> and \<^verbatim>\<open>commons.getUID\<close> are imported from
  \<^verbatim>\<open>coral-utils\<close>, which is not among the sources. The specification says that an
  unrecognised axis falls back to \<^verbatim>\<open>free\<close>, that non-boolean scroll and
  containment inputs are coerced, and that listeners are keyed by instance identity.
  So: the enumeration test accepts exactly the values of the enumeration; a string is
  its own text and any other value has the empty text; coercion to a boolean is
  JavaScript's; and each controller gets the next unused number as identity.
\<close>

fun transform_string :: "jsval \<Rightarrow> string" where
  "transform_string (Str s) = s"
| "transform_string v = []"

definition transform_boolean :: "jsval \<Rightarrow> bool" where
  "transform_boolean v = truthy v"

definition validate_enumeration :: "string list \<Rightarrow> string \<Rightarrow> bool" where
  "validate_enumeration enum v = (v \<in> set enum)"

subsubsection \<open>Setters\<close>

text \<open>
  The \<^verbatim>\<open>handle\<close> and \<^verbatim>\<open>dropZone\<close> setters return the controller and
  the DOM state they leave. Where \<^verbatim>\<open>transformToArray\<close> returns
  \<^verbatim>\<open>undefined\<close> the list is empty (the source tests it with
  \<^verbatim>\<open>x && x.length\<close> only).
\<close>

definition bindStart :: "nat \<Rightarrow> listener list \<Rightarrow> listener list" where
  "bindStart i ls = on ''touchstart'' NsDragAction (HDragStart i)
                      (on ''mousedown'' NsDragAction (HDragStart i) ls)"

definition bindStartTouchFirst :: "nat \<Rightarrow> listener list \<Rightarrow> listener list" where
  "bindStartTouchFirst i ls = on ''mousedown'' NsDragAction (HDragStart i)
                                (on ''touchstart'' NsDragAction (HDragStart i) ls)"

fun unbindHandles :: "elem list \<Rightarrow> dom \<Rightarrow> dom" where
  "unbindHandles [] d = d"
| "unbindHandles (h # hs) d =
     unbindHandles hs
       (classRemove h OPEN_HAND_CLASS (d\<lparr> elemVent := (elemVent d)(h := off NsDragAction (elemVent d h)) \<rparr>))"

fun bindHandles :: "nat \<Rightarrow> elem list \<Rightarrow> dom \<Rightarrow> dom" where
  "bindHandles i [] d = d"
| "bindHandles i (h # hs) d =
     bindHandles i hs
       (classAdd h OPEN_HAND_CLASS (d\<lparr> elemVent := (elemVent d)(h := bindStart i (elemVent d h)) \<rparr>))"

definition arrayOrEmpty :: "elem list option \<Rightarrow> elem list" where
  "arrayOrEmpty a = (case a of None \<Rightarrow> [] | Some es \<Rightarrow> es)"

definition set_handle :: "jsval \<Rightarrow> DragAction \<times> dom \<Rightarrow> DragAction \<times> dom" where
  "set_handle v cd =
     (let c = fst cd; d = snd cd;
          c1 = c\<lparr> handle := v, ctrlVent := off NsDragAction (ctrlVent c) \<rparr>;
          d1 = classRemove (dragElement c) IS_DRAGGING_CLASS (classRemove (body d) CLOSE_HAND_CLASS d);
          d2 = (if handles c \<noteq> [] then unbindHandles (handles c) d1
                else classRemove (dragElement c) OPEN_HAND_CLASS d1)
      in if isStringElementOrNodeList v then
           (let hs = arrayOrEmpty (transformToArray d2 v)
            in if hs \<noteq> [] then (c1\<lparr> handles := hs \<rparr>, bindHandles (uid c) hs d2)
               else (c1\<lparr> handles := hs, ctrlVent := bindStartTouchFirst (uid c) (ctrlVent c1) \<rparr>,
                     classAdd (dragElement c) OPEN_HAND_CLASS d2))
         else (c1\<lparr> handles := [], ctrlVent := bindStartTouchFirst (uid c) (ctrlVent c1) \<rparr>,
               classAdd (dragElement c) OPEN_HAND_CLASS d2))"

definition set_dropZone :: "jsval \<Rightarrow> DragAction \<times> dom \<Rightarrow> DragAction \<times> dom" where
  "set_dropZone v cd =
     (let c = fst cd; d = snd cd;
          c1 = c\<lparr> dropZone := v, dropZoneEntered := False \<rparr>
      in if isStringElementOrNodeList v
         then (c1\<lparr> dropZones := arrayOrEmpty (transformToArray d v) \<rparr>, d)
         else (c1\<lparr> dropZones := [] \<rparr>, d))"

text \<open>
  The \<^verbatim>\<open>axis\<close>, \<^verbatim>\<open>scroll\<close> and \<^verbatim>\<open>containment\<close> setters return the
  controller or the error they raise, so that raising no error is a statement about
  them. \<^verbatim>\<open>validate.enumeration(axis)(value) && value || axis.FREE\<close> is the value
  when the test accepts it and it is not the empty string, \<^verbatim>\<open>free\<close> otherwise.
\<close>

definition set_axis :: "jsval \<Rightarrow> DragAction \<Rightarrow> error + DragAction" where
  "set_axis v c =
     (let value = transform_string v
      in Inr (c\<lparr> axis := (if validate_enumeration axisEnum value \<and> value \<noteq> [] then value else FREE) \<rparr>))"

definition set_scroll :: "jsval \<Rightarrow> DragAction \<Rightarrow> error + DragAction" where
  "set_scroll v c = Inr (c\<lparr> scroll := transform_boolean v \<rparr>)"

definition set_containment :: "jsval \<Rightarrow> DragAction \<Rightarrow> error + DragAction" where
  "set_containment v c = Inr (c\<lparr> containment := transform_boolean v \<rparr>)"

subsubsection \<open>Drag start\<close>

text \<open>\<^verbatim>\<open>getViewContainer(this._dragElement) || document.body\<close>\<close>

definition viewContainerOrBody :: "dom \<Rightarrow> elem \<Rightarrow> elem" where
  "viewContainerOrBody d e = (case getViewContainer d e of None \<Rightarrow> body d | Some p \<Rightarrow> p)"

text \<open>
  \<^verbatim>\<open>_dragStart(event)\<close>. \<open>L\<close> is what the host answers to the geometry and
  computed-style queries of the handler. (The call \<^verbatim>\<open>event.preventDefault()\<close> for an
  image changes neither the controller nor the DOM state and is left out.)
\<close>

definition dragStart :: "event \<Rightarrow> layout \<Rightarrow> DragAction \<times> dom \<Rightarrow> DragAction \<times> dom \<times> notification list" where
  "dragStart ev L cd =
     (let c = fst cd; d = snd cd;
          cont = viewContainerOrBody d (dragElement c);
          c1 = c\<lparr> container := Some cont \<rparr>;
          d1 = d\<lparr> globalEvents := on ''touchmove'' NsDragAction HPreventDefault (globalEvents d) \<rparr>;
          d2 = d1\<lparr> overflowSaved := (overflowSaved d1)(body d1 := Some (ov (computedOverflow d1 (body d1)))) \<rparr>;
          d3 = d2\<lparr> styleOverflow := (styleOverflow d2)(body d2 := ''hidden'') \<rparr>;
          d4 = (if cont \<noteq> body d3 then
                  (let d3a = d3\<lparr> overflowSaved := (overflowSaved d3)(cont := Some (ov (computedOverflow d3 cont))) \<rparr>
                   in d3a\<lparr> styleOverflow := (styleOverflow d3a)(cont := (if scroll c1 then ''scroll'' else ''hidden'')) \<rparr>)
                else d3);
          pagePosition = getPagePosition ev;
          dragElementBoundingClientRect = boundingClientRect L (dragElement c1);
          dp = getPagePosition ev;
          dp1 = dp\<lparr> p_y := num_minus (p_y dp) (r_top dragElementBoundingClientRect + scrollTop L (scrollingElement L)) \<rparr>;
          dp2 = dp1\<lparr> p_x := num_minus (p_x dp1) (r_left dragElementBoundingClientRect + scrollLeft L (scrollingElement L)) \<rparr>;
          c2 = c1\<lparr> dragPosition := Some dp2 \<rparr>;
          d5 = classAdd (body d4) CLOSE_HAND_CLASS d4;
          d6 = (if handles c2 \<noteq> [] then fold (\<lambda>h. classRemove h OPEN_HAND_CLASS) (handles c2) d5
                else classRemove (dragElement c2) OPEN_HAND_CLASS d5);
          d7 = classAdd (dragElement c2) IS_DRAGGING_CLASS d6;
          d8 = (if computedPosition L (dragElement c2) = ''static''
                then d7\<lparr> stylePosition := (stylePosition d7)(dragElement c2 := ''relative'') \<rparr>
                else d7)
      in (c2, d8, [notify Dragstart (dragElement c2) pagePosition None]))"

subsubsection \<open>Drag move\<close>

text \<open>Top and left of a bounding box in document coordinates.\<close>

definition docTop :: "layout \<Rightarrow> elem \<Rightarrow> real" where
  "docTop L e = r_top (boundingClientRect L e) + scrollTop L (scrollingElement L)"

definition docLeft :: "layout \<Rightarrow> elem \<Rightarrow> real" where
  "docLeft L e = r_left (boundingClientRect L e) + scrollLeft L (scrollingElement L)"

text \<open>
  The block \<^verbatim>\<open>// Need to scroll ?\<close> of \<^verbatim>\<open>_drag\<close>. \<open>cont\<close> is
  \<^verbatim>\<open>this._container\<close>; the result is the layout with the scroll offsets as the
  writes leave them.
\<close>

definition scrollIfNeeded :: "DragAction \<Rightarrow> dom \<Rightarrow> elem \<Rightarrow> layout \<Rightarrow> layout" where
  "scrollIfNeeded c d cont L =
     (let se = scrollingElement L;
          documentScrollTop = scrollTop L se;
          documentScrollLeft = scrollLeft L se;
          dragRect = boundingClientRect L (dragElement c);
          containerRect = boundingClientRect L cont;
          dragElementPositionTop = docTop L (dragElement c);
          dragElementPositionLeft = docLeft L (dragElement c)
      in if scroll c then
           (if cont = body d then
              (let L1 = (if r_top dragRect < DEFAULT_SCROLL_OFFSET
                         then setScrollTop se (documentScrollTop - DEFAULT_SCROLL_BY) L
                         else if r_top dragRect + r_height dragRect > innerHeight L - DEFAULT_SCROLL_OFFSET
                                 \<and> dragElementPositionTop + r_height dragRect + DEFAULT_SCROLL_OFFSET < scrollHeight L se
                         then setScrollTop se (documentScrollTop + DEFAULT_SCROLL_BY) L
                         else L)
               in if r_left dragRect < DEFAULT_SCROLL_OFFSET
                  then setScrollLeft se (documentScrollLeft - DEFAULT_SCROLL_BY) L1
                  else if r_left dragRect + r_width dragRect > innerWidth L - DEFAULT_SCROLL_OFFSET
                          \<and> dragElementPositionLeft + r_width dragRect + DEFAULT_SCROLL_OFFSET < scrollWidth L se
                  then setScrollLeft se (documentScrollLeft + DEFAULT_SCROLL_BY) L1
                  else L1)
            else
              (let L1 = (if r_top dragRect - r_top containerRect < DEFAULT_SCROLL_OFFSET
                         then setScrollTop cont (scrollTop L cont - DEFAULT_SCROLL_BY) L
                         else if r_top dragRect - r_top containerRect + r_height dragRect
                                   > r_height containerRect - DEFAULT_SCROLL_OFFSET
                                 \<and> r_top dragRect - r_top containerRect + r_height dragRect < r_height containerRect
                         then setScrollTop cont (scrollTop L cont + DEFAULT_SCROLL_BY) L
                         else L)
               in if r_left dragRect - r_left containerRect < DEFAULT_SCROLL_OFFSET
                  then setScrollLeft cont (scrollLeft L1 cont - DEFAULT_SCROLL_BY) L1
                  else if r_left dragRect - r_left containerRect + r_width dragRect
                            > r_width containerRect - DEFAULT_SCROLL_OFFSET
                          \<and> r_left dragRect - r_left containerRect + r_width dragRect < r_width containerRect
                  then setScrollLeft cont (scrollLeft L1 cont + DEFAULT_SCROLL_BY) L1
                  else L1))
         else L)"

text \<open>
  The block \<^verbatim>\<open>// Set drag element's new position\<close>: \<^verbatim>\<open>newPosition\<close> is an
  object whose \<^verbatim>\<open>top\<close> and \<^verbatim>\<open>left\<close> are written only on some paths; a
  component that was not written is \<open>None\<close>.
\<close>

record newPos =
  np_top :: num
  np_left :: num

definition newPosition :: "DragAction \<Rightarrow> position \<Rightarrow> position \<Rightarrow> elem \<Rightarrow> layout \<Rightarrow> newPos" where
  "newPosition c pagePosition dp cont L =
     (let dragElementHeight = r_height (boundingClientRect L (dragElement c));
          dragElementWidth = r_width (boundingClientRect L (dragElement c));
          containerWidth = r_width (boundingClientRect L cont);
          containerHeight = r_height (boundingClientRect L cont);
          containerPositionTop = docTop L cont;
          containerPositionLeft = docLeft L cont;
          newTop =
            (if axis c \<noteq> HORIZONTAL then
               (let top = num_sub (p_y pagePosition) (p_y dp)
                in if containment c then
                     (if num_ge top containerPositionTop
                         \<and> num_le (num_plus top dragElementHeight) (containerPositionTop + containerHeight)
                      then top
                      else if num_le (p_y pagePosition) containerPositionTop
                      then Some containerPositionTop
                      else if num_ge (p_y pagePosition) (containerPositionTop + containerHeight)
                      then Some (containerPositionTop + containerHeight - dragElementHeight)
                      else None)
                   else top)
             else None);
          newLeft =
            (if axis c \<noteq> VERTICAL then
               (let left = num_sub (p_x pagePosition) (p_x dp)
                in if containment c then
                     (if num_ge left containerPositionLeft
                         \<and> num_le (num_plus left dragElementWidth) (containerPositionLeft + containerWidth)
                      then left
                      else if num_le (p_x pagePosition) containerPositionLeft
                      then Some containerPositionLeft
                      else if num_ge (p_x pagePosition) (containerPositionLeft + containerWidth)
                      then Some (containerPositionLeft + containerWidth - dragElementWidth)
                      else None)
                   else left)
             else None)
      in \<lparr> np_top = newTop, np_left = newLeft \<rparr>)"

text \<open>The block \<^verbatim>\<open>// Set the new position\<close>: the two writes to the inline style.\<close>

definition applyPosition :: "DragAction \<Rightarrow> newPos \<Rightarrow> layout \<Rightarrow> dom \<Rightarrow> dom" where
  "applyPosition c np L d =
     (let e = dragElement c;
          dragElementCSSPositionTop = parseFloatOr0 (computedTop L e);
          dragElementCSSPositionLeft = parseFloatOr0 (computedLeft L e);
          d1 = d\<lparr> styleTop := (styleTop d)(e :=
                   assignPx (styleTop d e)
                     (num_plus (num_minus (np_top np) (docTop L e)) dragElementCSSPositionTop)) \<rparr>
      in d1\<lparr> styleLeft := (styleLeft d1)(e :=
                assignPx (styleLeft d1 e)
                  (num_plus (num_minus (np_left np) (docLeft L e)) dragElementCSSPositionLeft)) \<rparr>)"

text \<open>
  The block \<^verbatim>\<open>// Trigger dropzone related events\<close>. \<open>L2\<close> is the layout the host
  answers with after the writes above.
\<close>

definition dropZoneEvents :: "position \<Rightarrow> layout \<Rightarrow> DragAction \<Rightarrow> DragAction \<times> notification list" where
  "dropZoneEvents pagePosition L2 c =
     (case isOverDropZone L2 (dragElement c) (dropZones c) of
        Some z \<Rightarrow>
          (let c1 = c\<lparr> dropElement := Some z \<rparr>
           in if \<not> dropZoneEntered c1
              then (c1\<lparr> dropZoneEntered := True \<rparr>,
                    [notify Dragenter (dragElement c1) pagePosition (dropElement c1),
                     notify Dragover (dragElement c1) pagePosition (dropElement c1)])
              else (c1, [notify Dragover (dragElement c1) pagePosition (dropElement c1)]))
      | None \<Rightarrow>
          (if dropZoneEntered c
           then (c\<lparr> dropZoneEntered := False \<rparr>,
                 [notify Dragleave (dragElement c) pagePosition (dropElement c)])
           else (c, [])))"

text \<open>
  \<^verbatim>\<open>_drag(event)\<close>. \<open>L\<close> is the layout when the handler starts, \<open>L2\<close> the layout
  after its writes. The result is the controller, the DOM state, the notifications in
  the order of dispatch and the layout with the scroll offsets written. Reading a field
  of \<^verbatim>\<open>this._container\<close> or \<^verbatim>\<open>this._dragPosition\<close> while it is
  \<^verbatim>\<open>undefined\<close> raises a TypeError; the error result does not keep what was done
  before it.
\<close>

definition drag :: "event \<Rightarrow> layout \<Rightarrow> layout \<Rightarrow> DragAction \<times> dom
                     \<Rightarrow> error + DragAction \<times> dom \<times> notification list \<times> layout" where
  "drag ev L L2 cd =
     (let c = fst cd; d = snd cd
      in if classContains d (dragElement c) IS_DRAGGING_CLASS then
           (case container c of
              None \<Rightarrow> Inl TypeError
            | Some cont \<Rightarrow>
                (case dragPosition c of
                   None \<Rightarrow> Inl TypeError
                 | Some dp \<Rightarrow>
                     (let pagePosition = getPagePosition ev;
                          L1 = scrollIfNeeded c d cont L;
                          np = newPosition c pagePosition dp cont L;
                          d1 = applyPosition c np L d;
                          r = dropZoneEvents pagePosition L2 c
                      in Inr (fst r, d1, notify Drag (dragElement c) pagePosition None # snd r, L1))))
         else Inr (c, d, [], L))"

subsubsection \<open>Drag end\<close>

text \<open>
  Writing a saved value back to \<^verbatim>\<open>style.overflow\<close>: \<^verbatim>\<open>undefined\<close> is no
  CSS value and leaves the declaration as it was.
\<close>

definition assignOverflow :: "string \<Rightarrow> string option \<Rightarrow> string" where
  "assignOverflow old v = (case v of None \<Rightarrow> old | Some s \<Rightarrow> s)"

definition restoreOverflow :: "elem \<Rightarrow> dom \<Rightarrow> dom" where
  "restoreOverflow e d =
     (let d1 = d\<lparr> styleOverflow := (styleOverflow d)(e := assignOverflow (styleOverflow d e) (overflowSaved d e)) \<rparr>
      in d1\<lparr> overflowSaved := (overflowSaved d1)(e := None) \<rparr>)"

text \<open>
  \<^verbatim>\<open>_dragEnd(event)\<close>; \<open>L\<close> is the layout the drop-zone evaluation sees, after
  the handler has restored the overflow styles and changed the classes. As in
  \<open>drag\<close>, the TypeError of an \<^verbatim>\<open>undefined\<close> container does not keep what
  was done before it.
\<close>

definition dragEnd :: "event \<Rightarrow> layout \<Rightarrow> DragAction \<times> dom
                        \<Rightarrow> error + DragAction \<times> dom \<times> notification list" where
  "dragEnd ev L cd =
     (let c = fst cd; d = snd cd
      in if classContains d (dragElement c) IS_DRAGGING_CLASS then
           (case container c of
              None \<Rightarrow> Inl TypeError
            | Some cont \<Rightarrow>
                (let pagePosition = getPagePosition ev;
                     d1 = restoreOverflow (body d) d;
                     d2 = (if cont \<noteq> body d1 then restoreOverflow cont d1 else d1);
                     d3 = classRemove (dragElement c) IS_DRAGGING_CLASS
                            (classRemove (body d2) CLOSE_HAND_CLASS d2);
                     d4 = (if handles c \<noteq> [] then fold (\<lambda>h. classAdd h OPEN_HAND_CLASS) (handles c) d3
                           else classAdd (dragElement c) OPEN_HAND_CLASS d3);
                     r = (if dropZoneEntered c then
                            (case isOverDropZone L (dragElement c) (dropZones c) of
                               Some z \<Rightarrow> (c\<lparr> dropElement := Some z \<rparr>,
                                          [notify Drop (dragElement c) pagePosition (Some z)])
                             | None \<Rightarrow> (c, []))
                          else (c, []))
                 in Inr (fst r, d4, snd r @ [notify Dragend (dragElement c) pagePosition None])))
         else Inr (c, d, []))"

subsubsection \<open>Destroy\<close>

text \<open>
  \<^verbatim>\<open>destroy(restorePosition)\<close>. A saved overflow is restored only when it is a
  non-empty string (\<^verbatim>\<open>if (document.body._overflow)\<close>).
\<close>

definition savedTruthy :: "string option \<Rightarrow> bool" where
  "savedTruthy v = (case v of None \<Rightarrow> False | Some s \<Rightarrow> s \<noteq> [])"

definition destroy :: "bool \<Rightarrow> DragAction \<times> dom \<Rightarrow> DragAction \<times> dom" where
  "destroy restorePosition cd =
     (let c = fst cd; d = snd cd;
          e = dragElement c;
          d1 = classRemove e IS_DRAGGING_CLASS (classRemove (body d) CLOSE_HAND_CLASS d);
          d2 = (if handles c \<noteq> [] then unbindHandles (handles c) d1
                else classRemove e OPEN_HAND_CLASS d1);
          c1 = (if handles c \<noteq> [] then c else c\<lparr> ctrlVent := off NsDragAction (ctrlVent c) \<rparr>);
          d3 = d2\<lparr> globalEvents := off (NsDragActionId (uid c)) (globalEvents d2) \<rparr>;
          d4 = (if savedTruthy (overflowSaved d3 (body d3)) then restoreOverflow (body d3) d3 else d3);
          d5 = (case container c of
                  None \<Rightarrow> d4
                | Some cont \<Rightarrow>
                    (if cont \<noteq> body d4 \<and> savedTruthy (overflowSaved d4 cont)
                     then restoreOverflow cont d4 else d4));
          d6 = (if restorePosition
                then d5\<lparr> stylePosition := (stylePosition d5)(e := ip_position (initialPosition c)),
                         styleTop := (styleTop d5)(e := ip_top (initialPosition c)),
                         styleLeft := (styleLeft d5)(e := ip_left (initialPosition c)) \<rparr>
                else d5)
      in (c1, d6\<lparr> dragActionRef := (dragActionRef d6)(e := None) \<rparr>))"

subsubsection \<open>Construction\<close>

text \<open>
  Controllers are objects: the \<^verbatim>\<open>dragAction\<close> property of an element and the
  application refer to the same one. A world is the DOM state, the controllers by
  identity, and the next identity \<^verbatim>\<open>commons.getUID()\<close> hands out. Controllers are
  never removed from the world, so a reference always finds its controller.
\<close>

record world =
  w_dom :: dom
  heap :: "nat \<Rightarrow> DragAction option"
  nextUID :: nat

definition getAttribute :: "dom \<Rightarrow> elem \<Rightarrow> string \<Rightarrow> jsval" where
  "getAttribute d e a = (case attributes d e a of None \<Rightarrow> Null | Some s \<Rightarrow> Str s)"

definition matchesAttribute :: "dom \<Rightarrow> elem \<Rightarrow> string \<Rightarrow> jsval" where
  "matchesAttribute d e a = Boolean (attributes d e a \<noteq> None)"

text \<open>
  \<^verbatim>\<open>if (this._dragElement.dragAction) { this._dragElement.dragAction.destroy(); }\<close>
\<close>

definition destroyPrior :: "elem \<Rightarrow> world \<Rightarrow> world" where
  "destroyPrior e w =
     (case dragActionRef (w_dom w) e of
        None \<Rightarrow> w
      | Some pid \<Rightarrow>
          (case heap w pid of
             None \<Rightarrow> w
           | Some prior \<Rightarrow>
               (let r = destroy False (prior, w_dom w)
                in w\<lparr> w_dom := snd r, heap := (heap w)(pid := Some (fst r)) \<rparr>)))"

text \<open>
  The element the constructor resolves: \<open>None\<close> is \<^verbatim>\<open>el = null\<close>.
\<close>

fun resolveElement :: "dom \<Rightarrow> jsval \<Rightarrow> elem option" where
  "resolveElement d (Element e) = Some e"
| "resolveElement d (Str s) = querySelector d s"
| "resolveElement d v = None"

fun isElement :: "jsval \<Rightarrow> bool" where
  "isElement (Element e) = True"
| "isElement v = False"

fun isString :: "jsval \<Rightarrow> bool" where
  "isString (Str s) = True"
| "isString v = False"

text \<open>
  The part of the constructor after \<^verbatim>\<open>// Destroy instance if existing\<close>, for the
  resolved element \<open>e\<close> and the identity \<open>i\<close>. The fields the constructor has not
  written yet are \<^verbatim>\<open>undefined\<close>: the empty list, \<open>None\<close>, \<open>False\<close> or the
  empty string until their setter runs.
\<close>

definition setUp :: "layout \<Rightarrow> jsval \<Rightarrow> elem \<Rightarrow> nat \<Rightarrow> world \<Rightarrow> world \<times> (error + nat)" where
  "setUp L arg e i w =
     (let d = w_dom w;
          c0 = \<lparr> uid = i, dragElementValue = arg, dragElement = e,
                 initialPosition = \<lparr> ip_position = computedPosition L e,
                                      ip_left = computedLeft L e,
                                      ip_top = computedTop L e \<rparr>,
                 ctrlVent = [], handle = Undefined, handles = [],
                 dropZone = Undefined, dropZones = [], dropZoneEntered = False,
                 dropElement = None, axis = [], scroll = False, containment = False,
                 container = None, dragPosition = None \<rparr>;
          r1 = set_handle (getAttribute d e HANDLE_ATTRIBUTE) (c0, d);
          r2 = set_dropZone (getAttribute (snd r1) e DROP_ZONE_ATTRIBUTE) r1;
          c2 = fst r2; d2 = snd r2
      in case set_axis (getAttribute d2 e AXIS_ATTRIBUTE) c2 of
           Inl er \<Rightarrow> (w\<lparr> w_dom := d2 \<rparr>, Inl er)
         | Inr c3 \<Rightarrow>
             (case set_scroll (matchesAttribute d2 e SCROLL_ATTRIBUTE) c3 of
                Inl er \<Rightarrow> (w\<lparr> w_dom := d2 \<rparr>, Inl er)
              | Inr c4 \<Rightarrow>
                  (case set_containment (matchesAttribute d2 e CONTAINMENT_ATTRIBUTE) c4 of
                     Inl er \<Rightarrow> (w\<lparr> w_dom := d2 \<rparr>, Inl er)
                   | Inr c5 \<Rightarrow>
                       (let ns = NsDragActionId i;
                            g = on ''mouseup'' ns (HDragEnd i)
                                  (on ''touchend'' ns (HDragEnd i)
                                    (on ''mousemove'' ns (HDrag i)
                                      (on ''touchmove'' ns (HDrag i) (globalEvents d2))));
                            d3 = d2\<lparr> globalEvents := g \<rparr>;
                            d4 = d3\<lparr> dragActionRef := (dragActionRef d3)(e := Some i) \<rparr>
                        in (w\<lparr> w_dom := d4, heap := (heap w)(i := Some c5) \<rparr>, Inr i)))))"

text \<open>
  \<^verbatim>\<open>new DragAction(dragElement)\<close>: the world it leaves, and the error it raises or
  the identity of the new controller.
\<close>

definition construct :: "layout \<Rightarrow> jsval \<Rightarrow> world \<Rightarrow> world \<times> (error + nat)" where
  "construct L arg w =
     (if \<not> truthy arg then (w, Inl (Error ''Coral.DragAction: dragElement is missing''))
      else (let el = resolveElement (w_dom w) arg
            in if isString arg \<and> el = None
               then (w, Inl (Error ''Coral.DragAction: dragElement is null''))
               else (let i = nextUID w;
                         w1 = w\<lparr> nextUID := Suc i \<rparr>
                     in case el of
                          None \<Rightarrow> (w1, Inl TypeError)
                        | Some e \<Rightarrow> setUp L arg e i (destroyPrior e w1))))"

subsection \<open>Sequences of handler calls\<close>

text \<open>
  A drag-move as the host delivers it: the event, the layout when the handler starts and
  the layout after the handler's writes.
\<close>

type_synonym move = "event \<times> layout \<times> layout"

text \<open>
  The drag-moves of a list handled one after the other, each on the state the one before
  left; the notifications are collected in the order of dispatch.
\<close>

fun drags :: "move list \<Rightarrow> DragAction \<times> dom \<Rightarrow> error + DragAction \<times> dom \<times> notification list" where
  "drags [] cd = Inr (fst cd, snd cd, [])"
| "drags (m # ms) cd =
     (case drag (fst m) (fst (snd m)) (snd (snd m)) cd of
        Inl er \<Rightarrow> Inl er
      | Inr r \<Rightarrow>
          (case drags ms (fst r, fst (snd r)) of
             Inl er \<Rightarrow> Inl er
           | Inr r2 \<Rightarrow> Inr (fst r2, fst (snd r2), fst (snd (snd r)) @ snd (snd r2))))"










subsection \<open>Bounds of the drag element\<close>







subsection \<open>Distances to the edges of the scroll container\<close>






subsection \<open>A concrete page\<close>

text \<open>
  A page used to run the definitions: the body is element 0, the document's scrolling
  element is 9, element 7 is a box with \<^verbatim>\<open>overflow: auto\<close> inside the body, the
  drag element 2 is inside element 7, and 3 and 4 are drop zones. Nothing is scrolled.
\<close>

definition box :: "real \<Rightarrow> real \<Rightarrow> real \<Rightarrow> real \<Rightarrow> rect" where
  "box l t w h = \<lparr> r_left = l, r_top = t, r_width = w, r_height = h \<rparr>"

definition page_rects :: "rect \<Rightarrow> elem \<Rightarrow> rect" where
  "page_rects dragRect e =
     (if e = 7 then box 0 0 200 100
      else if e = 2 then dragRect
      else if e = 3 then box 300 0 50 50
      else if e = 4 then box 25 25 50 50
      else box 0 0 800 600)"

definition page_layout :: "rect \<Rightarrow> layout" where
  "page_layout dragRect =
     \<lparr> boundingClientRect = page_rects dragRect,
       scrollTop = (\<lambda>e. 0), scrollLeft = (\<lambda>e. 0),
       scrollHeight = (\<lambda>e. 1000), scrollWidth = (\<lambda>e. 1000),
       scrollTopMax = (\<lambda>e. 400), scrollLeftMax = (\<lambda>e. 200),
       innerHeight = 600, innerWidth = 800,
       computedTop = (\<lambda>e. Px 0), computedLeft = (\<lambda>e. Px 0),
       computedPosition = (\<lambda>e. ''relative''),
       scrollingElement = 9 \<rparr>"

definition visible3 :: overflow3 where
  "visible3 = \<lparr> ov = ''visible'', ovX = ''visible'', ovY = ''visible'' \<rparr>"

definition auto3 :: overflow3 where
  "auto3 = \<lparr> ov = ''auto'', ovX = ''auto'', ovY = ''auto'' \<rparr>"

definition page_dom :: dom where
  "page_dom =
     \<lparr> body = 0,
       ancestors = (\<lambda>e. if e = 2 then [7, 0, 9] else if e = 0 then [9] else if e = 9 then [] else [0, 9]),
       attributes = (\<lambda>e a. if e = 2 \<and> a = DROP_ZONE_ATTRIBUTE then Some ''.zone'' else None),
       querySelectorAll = (\<lambda>s. if s = ''.zone'' then [3, 4] else if s = ''#drag'' then [2] else []),
       classList = (\<lambda>e. {}),
       styleOverflow = (\<lambda>e. []),
       sheetOverflow = (\<lambda>e. if e = 7 then auto3 else visible3),
       overflowSaved = (\<lambda>e. None),
       stylePosition = (\<lambda>e. []),
       styleTop = (\<lambda>e. Keyword []),
       styleLeft = (\<lambda>e. Keyword []),
       elemVent = (\<lambda>e. []),
       globalEvents = [],
       dragActionRef = (\<lambda>e. None) \<rparr>"

definition page_world :: world where
  "page_world = \<lparr> w_dom = page_dom, heap = (\<lambda>i. None), nextUID = 10 \<rparr>"

text \<open>
  The controller \<^verbatim>\<open>new DragAction(element 2)\<close> gives on this page, and the page
  after its construction.
\<close>

definition page_ctrl :: DragAction where
  "page_ctrl =
     \<lparr> uid = 10, dragElementValue = Element 2, dragElement = 2,
       initialPosition = \<lparr> ip_position = ''relative'', ip_left = Px 0, ip_top = Px 0 \<rparr>,
       ctrlVent = bindStartTouchFirst 10 [], handle = Null, handles = [],
       dropZone = Str ''.zone'', dropZones = [3, 4], dropZoneEntered = False,
       dropElement = None, axis = FREE, scroll = False, containment = False,
       container = None, dragPosition = None \<rparr>"

definition page_dom_ready :: dom where
  "page_dom_ready =
     page_dom\<lparr> classList := (\<lambda>e. if e = 2 then {OPEN_HAND_CLASS} else {}),
               globalEvents :=
                 [\<lparr> l_type = ''touchmove'', l_ns = NsDragActionId 10, l_handler = HDrag 10 \<rparr>,
                  \<lparr> l_type = ''mousemove'', l_ns = NsDragActionId 10, l_handler = HDrag 10 \<rparr>,
                  \<lparr> l_type = ''touchend'', l_ns = NsDragActionId 10, l_handler = HDragEnd 10 \<rparr>,
                  \<lparr> l_type = ''mouseup'', l_ns = NsDragActionId 10, l_handler = HDragEnd 10 \<rparr>],
               dragActionRef := (\<lambda>e. if e = 2 then Some 10 else None) \<rparr>"

definition mouse :: "real \<Rightarrow> real \<Rightarrow> event" where
  "mouse x y = \<lparr> changedTouches = None, touches = None, e_pageX = Some x, e_pageY = Some y,
                 targetTagName = ''DIV'' \<rparr>"

text \<open>
  The state after a pointer-down at (15, 15) on the drag element, whose bounding box is
  \<open>r\<close> at that moment.
\<close>

definition page_started :: "rect \<Rightarrow> DragAction \<Rightarrow> DragAction \<times> dom" where
  "page_started r c =
     (let res = dragStart (mouse 15 15) (page_layout r) (c, page_dom_ready)
      in (fst res, fst (snd res)))"

text \<open>What that pointer-down records in the controller.\<close>

definition page_dp :: position where
  "page_dp = \<lparr> p_x = Some 5, p_y = Some 5 \<rparr>"

definition page_active :: "DragAction \<Rightarrow> DragAction" where
  "page_active c = c\<lparr> container := Some 7, dragPosition := Some page_dp \<rparr>"


text \<open>
  Two drag-moves on that page: one that leaves the drag element over drop zone 4, one
  that leaves it away from both zones.
\<close>

definition page_move_in :: move where
  "page_move_in = (mouse 15 15, page_layout (box 10 10 20 20), page_layout (box 10 10 20 20))"



text \<open>The world after \<^verbatim>\<open>new DragAction(element 2)\<close> on that page.\<close>

definition page_world_ready :: world where
  "page_world_ready = \<lparr> w_dom = page_dom_ready, heap = (\<lambda>i. None)(10 := Some page_ctrl), nextUID = 11 \<rparr>"

section \<open>Properties\<close>

subsection \<open>Drop-zone evaluation\<close>





subsection \<open>Drag move: the result\<close>

lemma drag_active:
  assumes "classContains d (dragElement c) IS_DRAGGING_CLASS"
    and "container c = Some cont" and "dragPosition c = Some dp"
  shows "drag ev L L2 (c, d) =
           Inr (fst (dropZoneEvents (getPagePosition ev) L2 c),
                applyPosition c (newPosition c (getPagePosition ev) dp cont L) L d,
                notify Drag (dragElement c) (getPagePosition ev) None
                  # snd (dropZoneEvents (getPagePosition ev) L2 c),
                scrollIfNeeded c d cont L)"
  using assms by (simp add: drag_def Let_def)

lemma drag_idle:
  assumes "\<not> classContains d (dragElement c) IS_DRAGGING_CLASS"
  shows "drag ev L L2 (c, d) = Inr (c, d, [], L)"
  using assms by (simp add: drag_def Let_def)

lemma drag_Inr_cases:
  assumes "drag ev L L2 (c, d) = Inr (c', d', out, L1)"
  obtains (idle) "\<not> classContains d (dragElement c) IS_DRAGGING_CLASS" "c' = c" "d' = d" "out = []" "L1 = L"
  | (active) cont dp where "classContains d (dragElement c) IS_DRAGGING_CLASS"
      "container c = Some cont" "dragPosition c = Some dp"
      "c' = fst (dropZoneEvents (getPagePosition ev) L2 c)"
      "d' = applyPosition c (newPosition c (getPagePosition ev) dp cont L) L d"
      "out = notify Drag (dragElement c) (getPagePosition ev) None # snd (dropZoneEvents (getPagePosition ev) L2 c)"
      "L1 = scrollIfNeeded c d cont L"
  using assms by (auto simp: drag_def Let_def split: if_splits option.splits)

lemma applyPosition_top_None:
  "np_top np = None \<Longrightarrow> styleTop (applyPosition c np L d) = styleTop d"
  by (simp add: applyPosition_def Let_def num_minus_def num_plus_def assignPx_def)

lemma applyPosition_left_None:
  "np_left np = None \<Longrightarrow> styleLeft (applyPosition c np L d) = styleLeft d"
  by (simp add: applyPosition_def Let_def num_minus_def num_plus_def assignPx_def)

lemma newPosition_horizontal: "axis c = HORIZONTAL \<Longrightarrow> np_top (newPosition c p dp cont L) = None"
  by (simp add: newPosition_def Let_def)

lemma newPosition_vertical: "axis c = VERTICAL \<Longrightarrow> np_left (newPosition c p dp cont L) = None"
  by (simp add: newPosition_def Let_def)

subsection \<open>The concrete page after a pointer-down\<close>

lemma page_started_ctrl:
  assumes "dragElement c = 2" and "r_left r = 10" and "r_top r = 10"
  shows "fst (page_started r c) = c\<lparr> container := Some 7, dragPosition := Some \<lparr> p_x = Some 5, p_y = Some 5 \<rparr> \<rparr>"
  using assms
  by (simp add: page_started_def dragStart_def Let_def viewContainerOrBody_def getViewContainer_def page_dom_ready_def
      page_dom_def computedOverflow_def auto3_def visible3_def mouse_def getPagePosition_def
      or_num_def num_minus_def page_layout_def page_rects_def)

lemma page_started_dragging:
  assumes "dragElement c = 2"
  shows "classContains (snd (page_started r c)) 2 IS_DRAGGING_CLASS"
  using assms
  by (simp add: page_started_def dragStart_def Let_def classContains_def classAdd_def classRemove_def
      page_layout_def)

lemma page_started_eq:
  assumes "dragElement c = 2" and "r_left r = 10" and "r_top r = 10"
  shows "page_started r c = (page_active c, snd (page_started r c))"
  using page_started_ctrl [OF assms]
  by (metis page_active_def page_dp_def prod.collapse)

lemma body_class [simp]:
  "body (classAdd e k d) = body d"
  "body (classRemove e k d) = body d"
  by (simp_all add: classAdd_def classRemove_def)

lemma body_fold_classRemove [simp]: "body (fold (\<lambda>h. classRemove h k) hs d) = body d"
  by (induction hs arbitrary: d) simp_all

lemma body_fold_classAdd [simp]: "body (fold (\<lambda>h. classAdd h k) hs d) = body d"
  by (induction hs arbitrary: d) simp_all



lemma page_active_fields:
  "dragElement (page_active c) = dragElement c"
  "container (page_active c) = Some 7"
  "dragPosition (page_active c) = Some page_dp"
  "scroll (page_active c) = scroll c"
  "containment (page_active c) = containment c"
  "axis (page_active c) = axis c"
  "dropZones (page_active c) = dropZones c"
  "dropZoneEntered (page_active c) = dropZoneEntered c"
  by (simp_all add: page_active_def)

lemma page_drag:
  assumes "dragElement c = 2"
  shows "drag ev L L2 (page_active c, snd (page_started r c)) =
           Inr (fst (dropZoneEvents (getPagePosition ev) L2 (page_active c)),
                applyPosition (page_active c)
                  (newPosition (page_active c) (getPagePosition ev) page_dp 7 L) L (snd (page_started r c)),
                notify Drag (dragElement (page_active c)) (getPagePosition ev) None
                  # snd (dropZoneEvents (getPagePosition ev) L2 (page_active c)),
                scrollIfNeeded (page_active c) (snd (page_started r c)) 7 L)"
proof (rule drag_active)
  show "classContains (snd (page_started r c)) (dragElement (page_active c)) IS_DRAGGING_CLASS"
    using page_started_dragging [OF assms, of r] by (simp add: page_active_fields assms)
qed (simp_all add: page_active_fields)

subsection \<open>Axis restriction\<close>

text \<open>
  C2. With the axis set to horizontal no drag-move changes the inline \<^verbatim>\<open>top\<close> of
  any element, whatever the pointer does; with the axis vertical no drag-move changes
  the inline \<^verbatim>\<open>left\<close>. (The component that is not permitted is never written to
  \<^verbatim>\<open>newPosition\<close>, the text assigned is \<^verbatim>\<open>NaNpx\<close>, and the host ignores
  it.)
\<close>

theorem drag_axis_frame:
  assumes "drag ev L L2 (c, d) = Inr (c', d', out, L1)"
  shows "(axis c = HORIZONTAL \<longrightarrow> styleTop d' = styleTop d)
       \<and> (axis c = VERTICAL \<longrightarrow> styleLeft d' = styleLeft d)"
  using assms
proof (cases rule: drag_Inr_cases)
  case idle
  then show ?thesis by simp
next
  case (active cont dp)
  then show ?thesis
    by (simp add: applyPosition_top_None applyPosition_left_None
        newPosition_horizontal newPosition_vertical)
qed

theorem drag_axis_frame_witness:
  "\<exists>c' d' out L1.
      drag (mouse 40 60) (page_layout (box 10 10 20 20)) (page_layout (box 35 10 20 20))
        (page_started (box 10 10 20 20) (page_ctrl\<lparr> axis := HORIZONTAL \<rparr>)) = Inr (c', d', out, L1)
      \<and> styleTop d' = styleTop (snd (page_started (box 10 10 20 20) (page_ctrl\<lparr> axis := HORIZONTAL \<rparr>)))
      \<and> styleLeft d' 2 = Px 25"
proof -
  let ?ch = "page_ctrl\<lparr> axis := HORIZONTAL \<rparr>"
  let ?L = "page_layout (box 10 10 20 20)"
  let ?L2 = "page_layout (box 35 10 20 20)"
  let ?c = "fst (page_started (box 10 10 20 20) ?ch)" and ?d = "snd (page_started (box 10 10 20 20) ?ch)"
  let ?dp = "\<lparr> p_x = Some 5, p_y = Some (5::real) \<rparr>"
  have el: "dragElement ?ch = 2" by (simp add: page_ctrl_def)
  have c: "?c = ?ch\<lparr> container := Some 7, dragPosition := Some ?dp \<rparr>"
    using page_started_ctrl [OF el] by (simp add: box_def)
  have de: "dragElement ?c = 2" unfolding c by (simp add: page_ctrl_def)
  have dragging: "classContains ?d (dragElement ?c) IS_DRAGGING_CLASS"
    unfolding de by (rule page_started_dragging [OF el])
  have run: "drag (mouse 40 60) ?L ?L2 (?c, ?d) =
               Inr (fst (dropZoneEvents (getPagePosition (mouse 40 60)) ?L2 ?c),
                    applyPosition ?c (newPosition ?c (getPagePosition (mouse 40 60)) ?dp 7 ?L) ?L ?d,
                    notify Drag (dragElement ?c) (getPagePosition (mouse 40 60)) None
                      # snd (dropZoneEvents (getPagePosition (mouse 40 60)) ?L2 ?c),
                    scrollIfNeeded ?c ?d 7 ?L)"
    by (rule drag_active [OF dragging]) (simp_all only: c, simp_all)
  have ax: "axis ?c = HORIZONTAL" unfolding c by simp
  from drag_axis_frame [OF run] ax
  have top: "styleTop (applyPosition ?c (newPosition ?c (getPagePosition (mouse 40 60)) ?dp 7 ?L) ?L ?d)
               = styleTop ?d" by simp
  have left: "styleLeft (applyPosition ?c (newPosition ?c (getPagePosition (mouse 40 60)) ?dp 7 ?L) ?L ?d) 2
               = Px 25"
    unfolding c
    by (simp add: applyPosition_def newPosition_def Let_def page_ctrl_def mouse_def
        getPagePosition_def or_num_def num_sub_def num_minus_def num_plus_def assignPx_def
        docLeft_def docTop_def parseFloatOr0_def page_layout_def page_rects_def box_def)
  from run top left show ?thesis by simp
qed

subsection \<open>Containment\<close>















subsection \<open>Scrolling while dragging\<close>













subsection \<open>Drop-zone notifications\<close>







lemma classContains_applyPosition [simp]:
  "classContains (applyPosition c np L d) e k = classContains d e k"
  by (simp add: applyPosition_def Let_def classContains_def)


lemma classList_fold_classRemove:
  "classList (fold (\<lambda>h. classRemove h k) hs d) e
     = (if e \<in> set hs then classList d e - {k} else classList d e)"
  by (induction hs arbitrary: d) (auto simp: classRemove_def)

lemma classList_fold_classAdd:
  "classList (fold (\<lambda>h. classAdd h k) hs d) e
     = (if e \<in> set hs then insert k (classList d e) else classList d e)"
  by (induction hs arbitrary: d) (auto simp: classAdd_def)







lemma page_overlap_in: "isOverDropZone (page_layout (box 10 10 20 20)) 2 [3, 4] = Some 4"
  by (simp add: isOverDropZone_def within_fn_def page_layout_def page_rects_def box_def)





subsection \<open>Drag end\<close>

lemma dragEnd_result:
  assumes "classContains d (dragElement c) IS_DRAGGING_CLASS" and "container c = Some cont"
  shows "\<exists>c' d'. dragEnd ev L (c, d) =
           Inr (c', d',
                (if dropZoneEntered c
                 then (case isOverDropZone L (dragElement c) (dropZones c) of
                         None \<Rightarrow> []
                       | Some z \<Rightarrow> [notify Drop (dragElement c) (getPagePosition ev) (Some z)])
                 else [])
                @ [notify Dragend (dragElement c) (getPagePosition ev) None])"
  using assms
  by (auto simp: dragEnd_def Let_def split: option.splits)

text \<open>
  C6 (as amended). For every drag-end of an active session: if a drop zone is recorded as
  entered and the drop-zone evaluation made at drag-end finds a zone, a drop
  notification referencing the zone found is emitted, and none otherwise; a drag-end
  notification with the pointer coordinates of the end event is always emitted, after
  the drop notification if there is one.
\<close>

theorem dragEnd_notifications:
  assumes "classContains d (dragElement c) IS_DRAGGING_CLASS" and "container c = Some cont"
  shows "\<exists>c' d'. dragEnd ev L (c, d) =
           Inr (c', d',
                (if dropZoneEntered c
                 then (case isOverDropZone L (dragElement c) (dropZones c) of
                         None \<Rightarrow> []
                       | Some z \<Rightarrow> [notify Drop (dragElement c) (getPagePosition ev) (Some z)])
                 else [])
                @ [notify Dragend (dragElement c) (getPagePosition ev) None])"
  using assms by (rule dragEnd_result)

lemma page_dropZoneEvents_in:
  assumes "dragElement c = 2" and "dropZones c = [3, 4]" and "\<not> dropZoneEntered c"
  shows "dropZoneEvents p (page_layout (box 10 10 20 20)) c
           = (c\<lparr> dropElement := Some 4, dropZoneEntered := True \<rparr>,
              [notify Dragenter 2 p (Some 4), notify Dragover 2 p (Some 4)])"
  using assms by (simp add: dropZoneEvents_def Let_def page_overlap_in)

text \<open>The controller after the pointer-down and one move over zone 4.\<close>

lemma page_after_move_in:
  "\<exists>d'. drags [page_move_in] (page_started (box 10 10 20 20) page_ctrl)
     = Inr ((page_active page_ctrl)\<lparr> dropElement := Some 4, dropZoneEntered := True \<rparr>, d',
            [notify Drag 2 (getPagePosition (mouse 15 15)) None,
             notify Dragenter 2 (getPagePosition (mouse 15 15)) (Some 4),
             notify Dragover 2 (getPagePosition (mouse 15 15)) (Some 4)])
     \<and> classContains d' 2 IS_DRAGGING_CLASS"
proof -
  have el: "dragElement page_ctrl = 2" by (simp add: page_ctrl_def)
  have st: "page_started (box 10 10 20 20) page_ctrl
              = (page_active page_ctrl, snd (page_started (box 10 10 20 20) page_ctrl))"
    by (rule page_started_eq [OF el]) (simp_all add: box_def)
  have dz: "dropZoneEvents (getPagePosition (mouse 15 15)) (page_layout (box 10 10 20 20)) (page_active page_ctrl)
              = ((page_active page_ctrl)\<lparr> dropElement := Some 4, dropZoneEntered := True \<rparr>,
                 [notify Dragenter 2 (getPagePosition (mouse 15 15)) (Some 4),
                  notify Dragover 2 (getPagePosition (mouse 15 15)) (Some 4)])"
    by (rule page_dropZoneEvents_in) (simp_all add: page_active_def page_ctrl_def)
  have dg: "classContains (snd (page_started (box 10 10 20 20) page_ctrl)) 2 IS_DRAGGING_CLASS"
    by (rule page_started_dragging [OF el])
  show ?thesis
    by (subst st) (simp add: page_move_in_def page_drag [OF el] dz page_active_fields el dg)
qed

lemma page_entered_fields:
  "dragElement ((page_active page_ctrl)\<lparr> dropElement := Some 4, dropZoneEntered := True \<rparr>) = 2"
  "dropZones ((page_active page_ctrl)\<lparr> dropElement := Some 4, dropZoneEntered := True \<rparr>) = [3, 4]"
  "dropZoneEntered ((page_active page_ctrl)\<lparr> dropElement := Some 4, dropZoneEntered := True \<rparr>)"
  "container ((page_active page_ctrl)\<lparr> dropElement := Some 4, dropZoneEntered := True \<rparr>) = Some 7"
  "dropElement ((page_active page_ctrl)\<lparr> dropElement := Some 4, dropZoneEntered := True \<rparr>) = Some 4"
  by (simp_all add: page_active_def page_ctrl_def)

theorem dragEnd_notifications_witness:
  "\<exists>c d c' d'.
      drags [page_move_in] (page_started (box 10 10 20 20) page_ctrl)
        = Inr (c, d, [notify Drag 2 (getPagePosition (mouse 15 15)) None,
                      notify Dragenter 2 (getPagePosition (mouse 15 15)) (Some 4),
                      notify Dragover 2 (getPagePosition (mouse 15 15)) (Some 4)])
      \<and> dragEnd (mouse 16 17) (page_layout (box 10 10 20 20)) (c, d)
        = Inr (c', d', [notify Drop 2 (getPagePosition (mouse 16 17)) (Some 4),
                        notify Dragend 2 (getPagePosition (mouse 16 17)) None])"
proof -
  let ?c = "(page_active page_ctrl)\<lparr> dropElement := Some 4, dropZoneEntered := True \<rparr>"
  from page_after_move_in obtain d where
    r: "drags [page_move_in] (page_started (box 10 10 20 20) page_ctrl)
          = Inr (?c, d, [notify Drag 2 (getPagePosition (mouse 15 15)) None,
                         notify Dragenter 2 (getPagePosition (mouse 15 15)) (Some 4),
                         notify Dragover 2 (getPagePosition (mouse 15 15)) (Some 4)])"
    and dg: "classContains d 2 IS_DRAGGING_CLASS"
    by blast
  have dg': "classContains d (dragElement ?c) IS_DRAGGING_CLASS"
    using dg by (simp only: page_entered_fields)
  have "\<exists>c' d'. dragEnd (mouse 16 17) (page_layout (box 10 10 20 20)) (?c, d)
       = Inr (c', d', [notify Drop 2 (getPagePosition (mouse 16 17)) (Some 4),
                       notify Dragend 2 (getPagePosition (mouse 16 17)) None])"
    using dragEnd_notifications [OF dg' page_entered_fields(4), of "mouse 16 17" "page_layout (box 10 10 20 20)"]
    by (simp only: page_entered_fields page_overlap_in if_True option.case append.simps)
  with r show ?thesis by blast
qed

lemma page_overlap_small: "isOverDropZone (page_layout (box 10 10 14 14)) 2 [3, 4] = None"
  by (simp add: isOverDropZone_def within_fn_def page_layout_def page_rects_def box_def)

theorem dragEnd_notifications_counterexample:
  "map_sum id (\<lambda>r. (dropZoneEntered (fst r), dropElement (fst r), map n_kind (snd (snd r))))
     (drags [page_move_in] (page_started (box 10 10 20 20) page_ctrl))
     = Inr (True, Some 4, [Drag, Dragenter, Dragover])
   \<and> map_sum id (\<lambda>r. map n_kind (snd (snd r)))
       (case drags [page_move_in] (page_started (box 10 10 20 20) page_ctrl) of
          Inl er \<Rightarrow> Inl er
        | Inr r \<Rightarrow> dragEnd (mouse 15 15) (page_layout (box 10 10 14 14)) (fst r, fst (snd r)))
     = Inr [Dragend]"
proof -
  let ?c = "(page_active page_ctrl)\<lparr> dropElement := Some 4, dropZoneEntered := True \<rparr>"
  from page_after_move_in obtain d where
    r: "drags [page_move_in] (page_started (box 10 10 20 20) page_ctrl)
          = Inr (?c, d, [notify Drag 2 (getPagePosition (mouse 15 15)) None,
                         notify Dragenter 2 (getPagePosition (mouse 15 15)) (Some 4),
                         notify Dragover 2 (getPagePosition (mouse 15 15)) (Some 4)])"
    and dg: "classContains d 2 IS_DRAGGING_CLASS"
    by blast
  have dg': "classContains d (dragElement ?c) IS_DRAGGING_CLASS"
    using dg by (simp only: page_entered_fields)
  have "\<exists>c' d'. dragEnd (mouse 15 15) (page_layout (box 10 10 14 14)) (?c, d)
       = Inr (c', d', [notify Dragend 2 (getPagePosition (mouse 15 15)) None])"
    using dragEnd_result [OF dg' page_entered_fields(4), of "mouse 15 15" "page_layout (box 10 10 14 14)"]
    by (simp only: page_entered_fields page_overlap_small if_True option.case append.simps)
  then obtain c' d' where
    e: "dragEnd (mouse 15 15) (page_layout (box 10 10 14 14)) (?c, d)
          = Inr (c', d', [notify Dragend 2 (getPagePosition (mouse 15 15)) None])"
    by blast
  have a: "map_sum id (\<lambda>r. (dropZoneEntered (fst r), dropElement (fst r), map n_kind (snd (snd r))))
             (drags [page_move_in] (page_started (box 10 10 20 20) page_ctrl))
             = Inr (True, Some 4, [Drag, Dragenter, Dragover])"
    unfolding r by (simp add: page_entered_fields notify_def)
  have b: "map_sum id (\<lambda>r. map n_kind (snd (snd r)))
       (case drags [page_move_in] (page_started (box 10 10 20 20) page_ctrl) of
          Inl er \<Rightarrow> Inl er
        | Inr r \<Rightarrow> dragEnd (mouse 15 15) (page_layout (box 10 10 14 14)) (fst r, fst (snd r)))
     = Inr [Dragend]"
    unfolding r by (simp add: e notify_def)
  from a b show ?thesis by (rule conjI)
qed

subsection \<open>Overflow saved and restored\<close>



lemma class_fields [simp]:
  "styleOverflow (classAdd e k d) = styleOverflow d"
  "styleOverflow (classRemove e k d) = styleOverflow d"
  "sheetOverflow (classAdd e k d) = sheetOverflow d"
  "sheetOverflow (classRemove e k d) = sheetOverflow d"
  "overflowSaved (classAdd e k d) = overflowSaved d"
  "overflowSaved (classRemove e k d) = overflowSaved d"
  by (simp_all add: classAdd_def classRemove_def)

lemma fold_class_fields [simp]:
  "styleOverflow (fold (\<lambda>h. classRemove h k) hs d) = styleOverflow d"
  "sheetOverflow (fold (\<lambda>h. classRemove h k) hs d) = sheetOverflow d"
  "overflowSaved (fold (\<lambda>h. classRemove h k) hs d) = overflowSaved d"
  "styleOverflow (fold (\<lambda>h. classAdd h k) hs d) = styleOverflow d"
  "sheetOverflow (fold (\<lambda>h. classAdd h k) hs d) = sheetOverflow d"
  "overflowSaved (fold (\<lambda>h. classAdd h k) hs d) = overflowSaved d"
  by (induction hs arbitrary: d) simp_all





lemma applyPosition_fields [simp]:
  "styleOverflow (applyPosition c np L d) = styleOverflow d"
  "sheetOverflow (applyPosition c np L d) = sheetOverflow d"
  "overflowSaved (applyPosition c np L d) = overflowSaved d"
  "body (applyPosition c np L d) = body d"
  by (simp_all add: applyPosition_def Let_def)









subsection \<open>Construction\<close>








lemma destroyPrior_owned:
  "dragActionRef (w_dom w) e = Some pid \<Longrightarrow> heap w pid = Some prior \<Longrightarrow>
     destroyPrior e w = w\<lparr> w_dom := snd (destroy False (prior, w_dom w)),
                            heap := (heap w)(pid := Some (fst (destroy False (prior, w_dom w)))) \<rparr>"
  by (simp add: destroyPrior_def Let_def)

lemma destroyPrior_free:
  "dragActionRef (w_dom w) e = None \<Longrightarrow> destroyPrior e w = w"
  by (simp add: destroyPrior_def)


text \<open>
  C10. A node list, and a non-zero number, are truthy arguments that are neither a string
  nor an element: the resolved element stays \<^verbatim>\<open>null\<close>, and construction raises
  neither of the two documented errors but a TypeError, after it has taken an identity.
\<close>

theorem construct_NodeList_TypeError:
  "truthy (NodeList es) \<and> \<not> isString (NodeList es) \<and> \<not> isElement (NodeList es)
   \<and> resolveElement (w_dom w) (NodeList es) = None
   \<and> construct L (NodeList es) w = (w\<lparr> nextUID := Suc (nextUID w) \<rparr>, Inl TypeError)
   \<and> construct L (Number 7) w = (w\<lparr> nextUID := Suc (nextUID w) \<rparr>, Inl TypeError)
   \<and> TypeError \<noteq> Error ''Coral.DragAction: dragElement is missing''"
  by (simp add: construct_def Let_def)

subsection \<open>Configuration setters\<close>


subsection \<open>The concrete page: construction and setters\<close>

lemma construct_page:
  "construct (page_layout (box 10 10 20 20)) (Element 2) page_world = (page_world_ready, Inr 10)"
  by (auto simp add: construct_def page_world_def setUp_def destroyPrior_def page_dom_def set_handle_def set_dropZone_def
     set_axis_def set_scroll_def set_containment_def getAttribute_def matchesAttribute_def Let_def
     page_layout_def page_ctrl_def page_dom_ready_def page_world_ready_def classRemove_def classAdd_def on_def off_def
     bindStartTouchFirst_def arrayOrEmpty_def transform_boolean_def validate_enumeration_def axisEnum_def fun_eq_iff)


theorem construct_NodeList_TypeError_witness:
  "construct (page_layout (box 10 10 20 20)) (NodeList [3, 4]) page_world
     = (page_world\<lparr> nextUID := 11 \<rparr>, Inl TypeError)
   \<and> heap (fst (construct (page_layout (box 10 10 20 20)) (NodeList [3, 4]) page_world)) 10 = None"
  using construct_NodeList_TypeError [of "[3, 4]" page_world "page_layout (box 10 10 20 20)"]
  by (simp add: page_world_def)



end
